theory Spec2Isabelle
  imports Complex_Main
begin

section \<open>Nonlinear elasticity: characteristic speeds and the plotting glue\<close>

text \<open>
  The notebook \<^verbatim>\<open>Nonlinear_elasticity.ipynb\<close> defines three numerical helpers
  (\<^verbatim>\<open>dsigma\<close>, \<^verbatim>\<open>lambda1\<close>, \<^verbatim>\<open>lambda2\<close>) and two pieces of plotting glue
  (\<^verbatim>\<open>make_plot_function\<close>, \<^verbatim>\<open>plot_riemann_nonlinear_elasticity\<close>). The exact Riemann
  solver, the plotting library and the widgets are imported from elsewhere and appear
  here only as parameters and as recorded calls.
\<close>

subsection \<open>Numbers and errors\<close>

text \<open>
  The notebook passes numpy arrays of floats, so the entries that reach the helpers are
  numpy float64 scalars. Finite floats are idealised as reals (rounding and the sign of
  zero are not modelled); the three special values of the float format are kept, since
  numpy's division and square root produce them instead of raising: a division by zero
  gives an infinity (or NaN for \<open>0/0\<close>) and the square root of a negative number gives
  NaN, each with a warning only (numpy's default error settings). The rounding itself
  is modelled further down, for the one property that depends on it. A state array holds
  scalar entries: where the plotting library passes arrays of sample points, the same
  operations act entry by entry.
\<close>

datatype npfloat = Fin real | PInf | NInf | NaN

text \<open>
  The exceptions that occur: the two that the notebook's own code can raise, and
  \<open>Raised name\<close> for whatever exception an imported function raises.
\<close>

datatype py_error = IndexError | ValueError | Raised string

type_synonym ndarray = "real list"

definition np_div :: "real \<Rightarrow> real \<Rightarrow> npfloat" where
  "np_div x y =
     (if y \<noteq> 0 then Fin (x / y)
      else if 0 < x then PInf
      else if x < 0 then NInf
      else NaN)"

definition np_sqrt :: "npfloat \<Rightarrow> npfloat" where
  "np_sqrt x =
     (case x of
        Fin r \<Rightarrow> (if 0 \<le> r then Fin (sqrt r) else NaN)
      | PInf \<Rightarrow> PInf
      | NInf \<Rightarrow> NaN
      | NaN \<Rightarrow> NaN)"

definition np_neg :: "npfloat \<Rightarrow> npfloat" where
  "np_neg x =
     (case x of
        Fin r \<Rightarrow> Fin (- r)
      | PInf \<Rightarrow> NInf
      | NInf \<Rightarrow> PInf
      | NaN \<Rightarrow> NaN)"

subsection \<open>The stress law and the characteristic speeds\<close>

text \<open>
  Modelled from the spec: the quadratic stress law \<open>\<sigma> = K1 \<cdot> \<epsilon> + K2 \<cdot> \<epsilon>\<^sup>2\<close>. The function
  that computes it belongs to the module \<^verbatim>\<open>exact_solvers/nonlinear_elasticity.py\<close>, which
  is not among the sources; the notebook's text states the same formula.
\<close>

definition sigma :: "real \<Rightarrow> real \<Rightarrow> real \<Rightarrow> real" where
  "sigma eps K1 K2 = K1 * eps + K2 * eps\<^sup>2"

text \<open>
  \<^verbatim>\<open>def dsigma(eps, K1, K2): return K1 + 2*K2*eps\<close>
\<close>

definition dsigma :: "real \<Rightarrow> real \<Rightarrow> real \<Rightarrow> real" where
  "dsigma eps K1 K2 = K1 + 2 * K2 * eps"

text \<open>
  \<^verbatim>\<open>def lambda1(q, xi, aux):
      eps = q[0]
      rho, K1, K2 = aux
      return -np.sqrt(dsigma(eps, K1, K2)/rho)\<close>

  Reading \<open>q[0]\<close> of an empty array raises IndexError; unpacking \<open>aux\<close> raises
  ValueError unless it has exactly three entries. The argument \<open>xi\<close> is not used.
\<close>

definition lambda1 :: "ndarray \<Rightarrow> real \<Rightarrow> ndarray \<Rightarrow> py_error + npfloat" where
  "lambda1 q xi aux =
     (case q of
        [] \<Rightarrow> Inl IndexError
      | eps # _ \<Rightarrow>
          (case aux of
             [rho, K1, K2] \<Rightarrow> Inr (np_neg (np_sqrt (np_div (dsigma eps K1 K2) rho)))
           | _ \<Rightarrow> Inl ValueError))"

text \<open>
  \<^verbatim>\<open>def lambda2(q, xi, aux): return -lambda1(q,xi,aux)\<close>

  An exception of the inner call propagates.
\<close>

definition lambda2 :: "ndarray \<Rightarrow> real \<Rightarrow> ndarray \<Rightarrow> py_error + npfloat" where
  "lambda2 q xi aux =
     (case lambda1 q xi aux of
        Inl e \<Rightarrow> Inl e
      | Inr v \<Rightarrow> Inr (np_neg v))"

subsection \<open>The same helpers in binary64 arithmetic\<close>

text \<open>
  Whether two different strains give two different speeds depends on the rounding that
  the idealisation above leaves out. For that question the arithmetic of
  \<^verbatim>\<open>dsigma\<close> and \<^verbatim>\<open>lambda1\<close> is modelled once more with the rounding of the binary64
  format after every operation: 53 significant bits, round to nearest with ties to
  even, gradual underflow below \<open>2\<^sup>-\<^sup>1\<^sup>0\<^sup>2\<^sup>2\<close>, overflow to an infinity. The sign of zero
  is still not modelled; it does not change any comparison.

  \<open>round_half_even\<close> rounds a real to the nearest integer, a tie to the even one.
\<close>

definition round_half_even :: "real \<Rightarrow> int" where
  "round_half_even x =
     (let f = \<lfloor>x\<rfloor>; d = x - of_int f
      in if d < 1 / 2 then f
         else if 1 / 2 < d then f + 1
         else if even f then f else f + 1)"

text \<open>
  The exponent of the unit in the last place of a positive magnitude \<open>a\<close>: the binade
  of \<open>a\<close>, not below the smallest normal binade, less the 52 fraction bits.
\<close>

definition ulp_exponent :: "real \<Rightarrow> int" where
  "ulp_exponent a = max \<lfloor>log 2 a\<rfloor> (- 1022) - 52"

text \<open>Rounding a magnitude \<open>a \<ge> 0\<close> to 53 significant bits, with an unbounded exponent above.\<close>

definition round_magnitude :: "real \<Rightarrow> real" where
  "round_magnitude a =
     (if a = 0 then 0
      else of_int (round_half_even (a / 2 powi ulp_exponent a)) * 2 powi ulp_exponent a)"

text \<open>
  The binary64 value of a real result: the rounded magnitude with the sign put back,
  and an infinity when the rounded magnitude reaches \<open>2\<^sup>1\<^sup>0\<^sup>2\<^sup>4\<close>.
\<close>

definition round64 :: "real \<Rightarrow> npfloat" where
  "round64 x =
     (let m = round_magnitude \<bar>x\<bar>
      in if 2 ^ 1024 \<le> m then (if 0 < x then PInf else NInf)
         else Fin (if 0 \<le> x then m else - m))"

text \<open>The comparisons \<^verbatim>\<open><=\<close> and \<^verbatim>\<open><\<close> of floats: false as soon as one side is NaN.\<close>

fun fl_le :: "npfloat \<Rightarrow> npfloat \<Rightarrow> bool" where
  "fl_le NaN _ = False"
| "fl_le _ NaN = False"
| "fl_le NInf _ = True"
| "fl_le _ PInf = True"
| "fl_le (Fin x) (Fin y) = (x \<le> y)"
| "fl_le _ _ = False"

fun fl_lt :: "npfloat \<Rightarrow> npfloat \<Rightarrow> bool" where
  "fl_lt NaN _ = False"
| "fl_lt _ NaN = False"
| "fl_lt (Fin x) (Fin y) = (x < y)"
| "fl_lt NInf NInf = False"
| "fl_lt PInf PInf = False"
| "fl_lt NInf _ = True"
| "fl_lt _ PInf = True"
| "fl_lt _ _ = False"

text \<open>
  Addition, multiplication, division and square root of floats: NaN propagates,
  \<open>\<infinity> - \<infinity>\<close>, \<open>0 \<cdot> \<infinity>\<close>, \<open>\<infinity> / \<infinity>\<close>, \<open>0 / 0\<close> and the square root of a negative number
  are NaN, and a finite result is rounded.
\<close>

fun fl_add :: "npfloat \<Rightarrow> npfloat \<Rightarrow> npfloat" where
  "fl_add NaN _ = NaN"
| "fl_add _ NaN = NaN"
| "fl_add (Fin x) (Fin y) = round64 (x + y)"
| "fl_add PInf NInf = NaN"
| "fl_add NInf PInf = NaN"
| "fl_add PInf _ = PInf"
| "fl_add _ PInf = PInf"
| "fl_add NInf _ = NInf"
| "fl_add _ NInf = NInf"

fun fl_mul :: "npfloat \<Rightarrow> npfloat \<Rightarrow> npfloat" where
  "fl_mul NaN _ = NaN"
| "fl_mul _ NaN = NaN"
| "fl_mul (Fin x) (Fin y) = round64 (x * y)"
| "fl_mul (Fin x) PInf = (if 0 < x then PInf else if x < 0 then NInf else NaN)"
| "fl_mul (Fin x) NInf = (if 0 < x then NInf else if x < 0 then PInf else NaN)"
| "fl_mul PInf (Fin y) = (if 0 < y then PInf else if y < 0 then NInf else NaN)"
| "fl_mul NInf (Fin y) = (if 0 < y then NInf else if y < 0 then PInf else NaN)"
| "fl_mul PInf PInf = PInf"
| "fl_mul PInf NInf = NInf"
| "fl_mul NInf PInf = NInf"
| "fl_mul NInf NInf = PInf"

fun fl_div :: "npfloat \<Rightarrow> npfloat \<Rightarrow> npfloat" where
  "fl_div NaN _ = NaN"
| "fl_div _ NaN = NaN"
| "fl_div (Fin x) (Fin y) =
     (if y \<noteq> 0 then round64 (x / y)
      else if 0 < x then PInf
      else if x < 0 then NInf
      else NaN)"
| "fl_div (Fin x) _ = Fin 0"
| "fl_div PInf (Fin y) = (if 0 \<le> y then PInf else NInf)"
| "fl_div NInf (Fin y) = (if 0 \<le> y then NInf else PInf)"
| "fl_div _ _ = NaN"

fun fl_sqrt :: "npfloat \<Rightarrow> npfloat" where
  "fl_sqrt (Fin x) = (if 0 \<le> x then round64 (sqrt x) else NaN)"
| "fl_sqrt PInf = PInf"
| "fl_sqrt NInf = NaN"
| "fl_sqrt NaN = NaN"

text \<open>
  \<^verbatim>\<open>K1 + 2*K2*eps\<close> is evaluated as \<open>K1 + ((2 * K2) * eps)\<close>, and
  \<^verbatim>\<open>-np.sqrt(dsigma(eps, K1, K2)/rho)\<close> divides, takes the root and negates.
\<close>

definition dsigma_f64 :: "real \<Rightarrow> real \<Rightarrow> real \<Rightarrow> npfloat" where
  "dsigma_f64 eps K1 K2 = fl_add (Fin K1) (fl_mul (fl_mul (Fin 2) (Fin K2)) (Fin eps))"

definition lambda1_f64 :: "ndarray \<Rightarrow> real \<Rightarrow> ndarray \<Rightarrow> py_error + npfloat" where
  "lambda1_f64 q xi aux =
     (case q of
        [] \<Rightarrow> Inl IndexError
      | eps # _ \<Rightarrow>
          (case aux of
             [rho, K1, K2] \<Rightarrow> Inr (np_neg (fl_sqrt (fl_div (dsigma_f64 eps K1 K2) (Fin rho))))
           | _ \<Rightarrow> Inl ValueError))"

subsection \<open>The plotting glue\<close>

text \<open>
  The glue calls functions that the notebook imports: the exact solver
  \<^verbatim>\<open>nonlinear_elasticity.exact_riemann_solution\<close>, the plotting functions
  \<^verbatim>\<open>riemann_tools.plot_riemann\<close>, \<^verbatim>\<open>riemann_tools.plot_characteristics\<close>,
  \<^verbatim>\<open>nonlinear_elasticity.phase_plane_plot\<close>, \<^verbatim>\<open>plt.show\<close> and the widget function
  \<^verbatim>\<open>interact\<close>. The solver is a parameter of the model: given four arrays it either
  raises or returns a sequence of Python objects (of an arbitrary type \<open>'obj\<close>). Every
  call of an imported function is recorded, in order, with its arguments; the plotting
  and widget calls are taken to return normally. The axes \<open>ax[0]\<close> and \<open>ax[3]\<close> that
  \<^verbatim>\<open>plot_riemann\<close> returns are recorded by their index.
\<close>

type_synonym 'obj solver =
  "ndarray \<Rightarrow> ndarray \<Rightarrow> ndarray \<Rightarrow> ndarray \<Rightarrow> py_error + 'obj list"

datatype speed_fn = Lambda1 | Lambda2

definition speed_of :: "speed_fn \<Rightarrow> ndarray \<Rightarrow> real \<Rightarrow> ndarray \<Rightarrow> py_error + npfloat" where
  "speed_of f = (case f of Lambda1 \<Rightarrow> lambda1 | Lambda2 \<Rightarrow> lambda2)"

text \<open>The variables that the inner function \<^verbatim>\<open>plot_function\<close> captures.\<close>

record 'obj plot_closure =
  cl_states :: 'obj
  cl_speeds :: 'obj
  cl_reval :: 'obj
  cl_wave_types :: 'obj
  cl_q_l :: ndarray
  cl_q_r :: ndarray
  cl_aux_l :: ndarray
  cl_aux_r :: ndarray

record float_slider =
  sl_value :: real
  sl_min :: real
  sl_max :: real
  sl_step :: real

record dropdown =
  dd_options :: "int option list"
  dd_description :: string

datatype 'obj call =
    Exact_riemann_solution ndarray ndarray ndarray ndarray
  | Plot_riemann 'obj 'obj 'obj 'obj real nat bool "string list"
  | Plot_characteristics 'obj speed_fn "ndarray \<times> ndarray" nat
  | Phase_plane_plot ndarray ndarray ndarray ndarray nat
  | Show
  | Interact "'obj plot_closure" float_slider dropdown

text \<open>
  \<^verbatim>\<open>def make_plot_function(q_l, q_r, aux_l, aux_r):
      states, speeds, reval, wave_types = \
          nonlinear_elasticity.exact_riemann_solution(q_l,q_r,aux_l,aux_r)
      def plot_function(t,which_char): ...
      return plot_function\<close>

  The unpacking raises ValueError unless the solver's result has exactly four items.
\<close>

definition make_plot_function ::
  "'obj solver \<Rightarrow> ndarray \<Rightarrow> ndarray \<Rightarrow> ndarray \<Rightarrow> ndarray \<Rightarrow>
     'obj call list \<times> (py_error + 'obj plot_closure)" where
  "make_plot_function solver q_l q_r aux_l aux_r =
     ([Exact_riemann_solution q_l q_r aux_l aux_r],
      (case solver q_l q_r aux_l aux_r of
         Inl e \<Rightarrow> Inl e
       | Inr [states, speeds, reval, wave_types] \<Rightarrow>
           Inr \<lparr>cl_states = states, cl_speeds = speeds, cl_reval = reval,
                cl_wave_types = wave_types,
                cl_q_l = q_l, cl_q_r = q_r, cl_aux_l = aux_l, cl_aux_r = aux_r\<rparr>
       | Inr _ \<Rightarrow> Inl ValueError))"

text \<open>
  \<^verbatim>\<open>def plot_function(t,which_char):
      ax = riemann_tools.plot_riemann(states,speeds,reval,wave_types,
                                      t=t,t_pointer=0,
                                      extra_axes=True,
                                      variable_names=['Strain','Momentum'])
      if which_char == 1:
          riemann_tools.plot_characteristics(reval,lambda1,(aux_l,aux_r),ax[0])
      elif which_char == 2:
          riemann_tools.plot_characteristics(reval,lambda2,(aux_l,aux_r),ax[0])
      nonlinear_elasticity.phase_plane_plot(q_l, q_r, aux_l, aux_r, ax[3])
      plt.show()\<close>

  The dropdown offers \<open>None\<close>, \<open>1\<close> and \<open>2\<close> for \<open>which_char\<close>.
\<close>

definition plot_function :: "'obj plot_closure \<Rightarrow> real \<Rightarrow> int option \<Rightarrow> 'obj call list" where
  "plot_function c t which_char =
     [Plot_riemann (cl_states c) (cl_speeds c) (cl_reval c) (cl_wave_types c)
        t 0 True [''Strain'', ''Momentum'']] @
     (if which_char = Some 1 then
        [Plot_characteristics (cl_reval c) Lambda1 (cl_aux_l c, cl_aux_r c) 0]
      else if which_char = Some 2 then
        [Plot_characteristics (cl_reval c) Lambda2 (cl_aux_l c, cl_aux_r c) 0]
      else []) @
     [Phase_plane_plot (cl_q_l c) (cl_q_r c) (cl_aux_l c) (cl_aux_r c) 3, Show]"

text \<open>
  \<^verbatim>\<open>def plot_riemann_nonlinear_elasticity(rho_l,rho_r,v_l,v_r):
      plot_function = make_plot_function(rho_l,rho_r,v_l,v_r)
      interact(plot_function, t=widgets.FloatSlider(value=0.,min=0,max=1.,step=0.1),
               which_char=widgets.Dropdown(options=[None,1,2],
                                           description='Show characteristics'));\<close>
\<close>

definition plot_riemann_nonlinear_elasticity ::
  "'obj solver \<Rightarrow> ndarray \<Rightarrow> ndarray \<Rightarrow> ndarray \<Rightarrow> ndarray \<Rightarrow>
     'obj call list \<times> (py_error + unit)" where
  "plot_riemann_nonlinear_elasticity solver rho_l rho_r v_l v_r =
     (case make_plot_function solver rho_l rho_r v_l v_r of
        (calls, Inl e) \<Rightarrow> (calls, Inl e)
      | (calls, Inr plot_fn) \<Rightarrow>
          (calls @
             [Interact plot_fn
                \<lparr>sl_value = 0, sl_min = 0, sl_max = 1, sl_step = 0.1\<rparr>
                \<lparr>dd_options = [None, Some 1, Some 2],
                 dd_description = ''Show characteristics''\<rparr>],
           Inr ()))"

text \<open>The argument tuples of the solver calls among the recorded calls, in order.\<close>

definition solver_calls ::
  "'obj call list \<Rightarrow> (ndarray \<times> ndarray \<times> ndarray \<times> ndarray) list" where
  "solver_calls calls =
     concat (map (\<lambda>c. case c of
                         Exact_riemann_solution q_l q_r aux_l aux_r \<Rightarrow> [(q_l, q_r, aux_l, aux_r)]
                       | _ \<Rightarrow> []) calls)"

section \<open>Properties of the characteristic speeds\<close>

subsection \<open>Evaluation on well-shaped arguments\<close>

lemma lambda1_shaped:
  "lambda1 (eps # qs) xi [rho, K1, K2] =
     Inr (np_neg (np_sqrt (np_div (dsigma eps K1 K2) rho)))"
  by (simp add: lambda1_def)

lemma lambda2_shaped:
  "lambda2 (eps # qs) xi [rho, K1, K2] =
     Inr (np_neg (np_neg (np_sqrt (np_div (dsigma eps K1 K2) rho))))"
  by (simp add: lambda2_def lambda1_shaped)

lemma np_neg_involution: "np_neg (np_neg x) = x"
  by (cases x) (simp_all add: np_neg_def)

lemma speed_of_nonneg_quotient:
  assumes "rho \<noteq> 0" and "0 \<le> d / rho"
  shows "np_neg (np_sqrt (np_div d rho)) = Fin (- sqrt (d / rho))"
  using assms by (simp add: np_div_def np_sqrt_def np_neg_def)

lemma speed_of_negative_quotient:
  assumes "rho \<noteq> 0" and "d / rho < 0"
  shows "np_neg (np_sqrt (np_div d rho)) = NaN"
  using assms by (simp add: np_div_def np_sqrt_def np_neg_def)

subsection \<open>The stress derivative\<close>

text \<open>
  Claim C3. For every real strain \<open>\<epsilon>\<close>, negative ones included, and every \<open>K1\<close>, \<open>K2\<close>,
  \<open>dsigma\<close> returns \<open>K1 + 2 \<cdot> K2 \<cdot> \<epsilon>\<close>, and this value is the derivative with respect to
  the strain of the quadratic stress law \<open>\<sigma> = K1 \<cdot> \<epsilon> + K2 \<cdot> \<epsilon>\<^sup>2\<close> at \<open>\<epsilon>\<close>. The function is
  a pure function of its three arguments.
\<close>

theorem dsigma_is_stress_derivative:
  "dsigma eps K1 K2 = K1 + 2 * K2 * eps \<and>
   ((\<lambda>e. sigma e K1 K2) has_real_derivative dsigma eps K1 K2) (at eps)"
proof
  show "dsigma eps K1 K2 = K1 + 2 * K2 * eps"
    by (simp add: dsigma_def)
next
  have "((\<lambda>e. K1 * e + K2 * e\<^sup>2) has_real_derivative K1 + 2 * K2 * eps) (at eps)"
    by (auto intro!: derivative_eq_intros)
  then show "((\<lambda>e. sigma e K1 K2) has_real_derivative dsigma eps K1 K2) (at eps)"
    by (simp add: sigma_def dsigma_def)
qed

subsection \<open>Signs of the two speeds\<close>

text \<open>
  Claim C2. For every state \<open>q\<close> with strain \<open>\<epsilon> = q[0]\<close> and every parameter triple
  \<open>(\<rho>, K1, K2)\<close> with \<open>\<rho> > 0\<close> and \<open>K1 + 2 \<cdot> K2 \<cdot> \<epsilon> \<ge> 0\<close>, both speeds are finite numbers,
  the speed of family 1 is at most zero and the speed of family 2 is at least zero.
\<close>

theorem characteristic_speed_signs:
  assumes "0 < rho" and "0 \<le> K1 + 2 * K2 * eps"
  shows "\<exists>v w. lambda1 (eps # qs) xi [rho, K1, K2] = Inr (Fin v) \<and>
               lambda2 (eps # qs) xi [rho, K1, K2] = Inr (Fin w) \<and>
               v \<le> 0 \<and> 0 \<le> w"
proof -
  from assms have nz: "rho \<noteq> 0" and quot: "0 \<le> dsigma eps K1 K2 / rho"
    by (simp_all add: dsigma_def)
  let ?c = "sqrt (dsigma eps K1 K2 / rho)"
  have one: "lambda1 (eps # qs) xi [rho, K1, K2] = Inr (Fin (- ?c))"
    by (simp only: lambda1_shaped speed_of_nonneg_quotient [OF nz quot])
  have two: "lambda2 (eps # qs) xi [rho, K1, K2] = Inr (Fin ?c)"
    by (simp add: lambda2_def one np_neg_def)
  have "0 \<le> ?c"
    using quot by (rule real_sqrt_ge_zero)
  with one two show ?thesis by simp
qed

theorem characteristic_speed_signs_witness:
  "(0::real) < 1 \<and> (0::real) \<le> 5 + 2 * 1 * 2.1 \<and>
   (\<exists>v w. lambda1 [2.1, 0] 0 [1, 5, 1] = Inr (Fin v) \<and>
          lambda2 [2.1, 0] 0 [1, 5, 1] = Inr (Fin w) \<and>
          v \<le> 0 \<and> 0 \<le> w)"
proof -
  have pos: "(0::real) < 1" by simp
  have slope: "(0::real) \<le> 5 + 2 * 1 * 2.1" by simp
  from characteristic_speed_signs [OF pos slope, of "[0]" 0] pos slope
  show ?thesis by simp
qed

subsection \<open>The two speeds are negations of each other\<close>

text \<open>
  Claim C9. For every state \<open>q\<close>, every \<open>\<xi>\<close> and every parameter array \<open>aux\<close>, the result
  of \<open>lambda2\<close> is the negation of the result of \<open>lambda1\<close> on the same arguments, and
  conversely (negation of a float is exact, and NaN stays NaN); when the call of
  \<open>lambda1\<close> raises, \<open>lambda2\<close> raises the same error. In particular one of them
  returns the finite number \<open>v\<close> exactly when the other returns \<open>- v\<close>.
\<close>

theorem lambda2_negates_lambda1:
  "lambda2 q xi aux = map_sum (\<lambda>e. e) np_neg (lambda1 q xi aux) \<and>
   lambda1 q xi aux = map_sum (\<lambda>e. e) np_neg (lambda2 q xi aux) \<and>
   (lambda1 q xi aux = Inr (Fin v)) = (lambda2 q xi aux = Inr (Fin (- v)))"
proof (cases "lambda1 q xi aux")
  case (Inl e)
  then show ?thesis by (simp add: lambda2_def)
next
  case (Inr x)
  have flip: "(x = Fin v) = (np_neg x = Fin (- v))"
    by (cases x) (simp_all add: np_neg_def)
  from Inr have "lambda2 q xi aux = Inr (np_neg x)"
    by (simp add: lambda2_def)
  with Inr flip show ?thesis
    by (simp add: np_neg_involution)
qed

subsection \<open>Monotonicity of the family-1 speed\<close>

text \<open>Rounding to the nearest integer is monotone and fixes the integers.\<close>

lemma round_half_even_between:
  "\<lfloor>x\<rfloor> \<le> round_half_even x \<and> round_half_even x \<le> \<lfloor>x\<rfloor> + 1"
  by (simp add: round_half_even_def Let_def)

lemma round_half_even_of_int: "round_half_even (of_int n) = n"
  by (simp add: round_half_even_def)

lemma round_half_even_mono:
  assumes "x \<le> y"
  shows "round_half_even x \<le> round_half_even y"
proof (cases "\<lfloor>x\<rfloor> = \<lfloor>y\<rfloor>")
  case True
  with assms show ?thesis
    by (auto simp: round_half_even_def Let_def)
next
  case False
  with assms have "\<lfloor>x\<rfloor> + 1 \<le> \<lfloor>y\<rfloor>"
    using floor_mono [of x y] by linarith
  with round_half_even_between [of x] round_half_even_between [of y]
  show ?thesis by linarith
qed

lemma round_half_even_ge: "of_int n \<le> x \<Longrightarrow> n \<le> round_half_even x"
  using round_half_even_mono [of "of_int n" x] by (simp add: round_half_even_of_int)

lemma round_half_even_le: "x \<le> of_int n \<Longrightarrow> round_half_even x \<le> n"
  using round_half_even_mono [of x "of_int n"] by (simp add: round_half_even_of_int)

lemma ulp_exponent_mono:
  assumes "0 < a" and "a \<le> b"
  shows "ulp_exponent a \<le> ulp_exponent b"
proof -
  from assms have "log 2 a \<le> log 2 b" by simp
  then have "\<lfloor>log 2 a\<rfloor> \<le> \<lfloor>log 2 b\<rfloor>" by (rule floor_mono)
  then show ?thesis by (simp add: ulp_exponent_def)
qed

lemma two_powr_int: "(2::real) powr of_int k = 2 powi k"
  by (rule powr_real_of_int') simp_all

lemma below_next_binade:
  assumes "0 < a"
  shows "a < 2 powi (ulp_exponent a + 53)"
proof -
  have "log 2 a < of_int (\<lfloor>log 2 a\<rfloor> + 1)" by linarith
  also have "\<dots> \<le> of_int (ulp_exponent a + 53)"
    unfolding of_int_le_iff by (simp add: ulp_exponent_def)
  finally have "log 2 a < of_int (ulp_exponent a + 53)" .
  with assms have "a < 2 powr of_int (ulp_exponent a + 53)"
    by (simp add: log_less_iff)
  then show ?thesis by (simp only: two_powr_int)
qed

lemma above_own_binade:
  assumes "0 < a" and "- 1074 < ulp_exponent a"
  shows "2 powi (ulp_exponent a + 52) \<le> a"
proof -
  from assms(2) have "ulp_exponent a + 52 = \<lfloor>log 2 a\<rfloor>"
    by (simp add: ulp_exponent_def max_def split: if_splits)
  then have "of_int (ulp_exponent a + 52) \<le> log 2 a" by simp
  with assms(1) have "2 powr of_int (ulp_exponent a + 52) \<le> a"
    by (simp add: le_log_iff)
  then show ?thesis by (simp only: two_powr_int)
qed

lemma ulp_exponent_lower: "- 1074 \<le> ulp_exponent a"
  by (simp add: ulp_exponent_def)

lemma round_magnitude_nonneg:
  assumes "0 \<le> a"
  shows "0 \<le> round_magnitude a"
proof (cases "a = 0")
  case True
  then show ?thesis by (simp add: round_magnitude_def)
next
  case False
  with assms have "0 \<le> a / 2 powi ulp_exponent a" by simp
  then have "0 \<le> round_half_even (a / 2 powi ulp_exponent a)"
    using round_half_even_ge [of 0] by simp
  with False show ?thesis by (simp add: round_magnitude_def)
qed

lemma round_magnitude_upper:
  assumes "0 < a"
  shows "round_magnitude a \<le> 2 powi (ulp_exponent a + 53)"
proof -
  let ?u = "2 powi ulp_exponent a :: real"
  have u: "0 < ?u" by simp
  have split: "2 powi (ulp_exponent a + 53) = 2 ^ 53 * ?u"
    by (simp add: power_int_add)
  from below_next_binade [OF assms] have "a / ?u \<le> of_int (2 ^ 53)"
    using u by (simp add: split pos_divide_le_eq)
  then have "round_half_even (a / ?u) \<le> 2 ^ 53"
    by (rule round_half_even_le)
  then have "(of_int (round_half_even (a / ?u)) :: real) \<le> of_int (2 ^ 53)"
    unfolding of_int_le_iff .
  then have "of_int (round_half_even (a / ?u)) * ?u \<le> 2 ^ 53 * ?u"
    using u by simp
  with assms show ?thesis by (simp add: round_magnitude_def split)
qed

lemma round_magnitude_lower:
  assumes "0 < a" and "- 1074 < ulp_exponent a"
  shows "2 powi (ulp_exponent a + 52) \<le> round_magnitude a"
proof -
  let ?u = "2 powi ulp_exponent a :: real"
  have u: "0 < ?u" by simp
  have split: "2 powi (ulp_exponent a + 52) = 2 ^ 52 * ?u"
    by (simp add: power_int_add)
  from above_own_binade [OF assms] have "of_int (2 ^ 52) \<le> a / ?u"
    using u by (simp add: split pos_le_divide_eq)
  then have "2 ^ 52 \<le> round_half_even (a / ?u)"
    by (rule round_half_even_ge)
  then have "(of_int (2 ^ 52) :: real) \<le> of_int (round_half_even (a / ?u))"
    unfolding of_int_le_iff .
  then have "2 ^ 52 * ?u \<le> of_int (round_half_even (a / ?u)) * ?u"
    using u by simp
  with assms show ?thesis by (simp add: round_magnitude_def split)
qed

lemma round_magnitude_mono:
  assumes "0 \<le> a" and "a \<le> b"
  shows "round_magnitude a \<le> round_magnitude b"
proof (cases "a = 0")
  case True
  with assms round_magnitude_nonneg [of b] show ?thesis
    by (simp add: round_magnitude_def)
next
  case False
  with assms have pa: "0 < a" and pb: "0 < b" by simp_all
  from ulp_exponent_mono [OF pa assms(2)]
  consider "ulp_exponent a = ulp_exponent b" | "ulp_exponent a < ulp_exponent b"
    by linarith
  then show ?thesis
  proof cases
    case 1
    let ?u = "2 powi ulp_exponent b :: real"
    have u: "0 < ?u" by simp
    from assms(2) u have "a / ?u \<le> b / ?u" by (simp add: divide_right_mono)
    then have "round_half_even (a / ?u) \<le> round_half_even (b / ?u)"
      by (rule round_half_even_mono)
    then have "(of_int (round_half_even (a / ?u)) :: real) \<le> of_int (round_half_even (b / ?u))"
      unfolding of_int_le_iff .
    then have "of_int (round_half_even (a / ?u)) * ?u \<le> of_int (round_half_even (b / ?u)) * ?u"
      using u by simp
    with pa pb 1 show ?thesis by (simp add: round_magnitude_def)
  next
    case 2
    with ulp_exponent_lower [of a] have low: "- 1074 < ulp_exponent b" by linarith
    from 2 have "ulp_exponent a + 53 \<le> ulp_exponent b + 52" by linarith
    then have "(2::real) powi (ulp_exponent a + 53) \<le> 2 powi (ulp_exponent b + 52)"
      by (intro power_int_increasing) simp_all
    with round_magnitude_upper [OF pa] round_magnitude_lower [OF pb low]
    show ?thesis by linarith
  qed
qed


lemma round64_zero: "round64 0 = Fin 0"
  by (simp add: round64_def round_magnitude_def)

lemma round64_mono:
  assumes "x \<le> y"
  shows "fl_le (round64 x) (round64 y)"
proof -
  consider "0 \<le> x" | "x < 0" "0 \<le> y" | "y < 0" by linarith
  then show ?thesis
  proof cases
    case 1
    with assms have "round_magnitude \<bar>x\<bar> \<le> round_magnitude \<bar>y\<bar>"
      by (intro round_magnitude_mono) simp_all
    moreover have "x = 0 \<Longrightarrow> round_magnitude \<bar>x\<bar> = 0"
      by (simp add: round_magnitude_def)
    ultimately show ?thesis
      using 1 assms by (auto simp: round64_def Let_def)
  next
    case 2
    have "0 \<le> round_magnitude \<bar>x\<bar>" "0 \<le> round_magnitude \<bar>y\<bar>"
      by (simp_all add: round_magnitude_nonneg)
    moreover have "y = 0 \<Longrightarrow> round_magnitude \<bar>y\<bar> = 0"
      by (simp add: round_magnitude_def)
    ultimately show ?thesis
      using 2 by (auto simp: round64_def Let_def)
  next
    case 3
    with assms have "round_magnitude \<bar>y\<bar> \<le> round_magnitude \<bar>x\<bar>"
      by (intro round_magnitude_mono) simp_all
    then show ?thesis
      using 3 assms by (auto simp: round64_def Let_def)
  qed
qed

lemma round64_not_nan: "round64 x \<noteq> NaN"
  by (simp add: round64_def Let_def)

lemma fl_le_PInf: "fl_le a PInf = (a \<noteq> NaN)"
  by (cases a) simp_all

lemma fl_le_NInf: "fl_le NInf a = (a \<noteq> NaN)"
  by (cases a) simp_all

lemma fl_le_not_lt: "fl_le a b \<Longrightarrow> \<not> fl_lt b a"
  by (cases a; cases b) simp_all

lemma fl_le_not_nan: "fl_le a b \<Longrightarrow> a \<noteq> NaN \<and> b \<noteq> NaN"
  by (cases a; cases b) simp_all

lemma fl_le_trans: "fl_le a b \<Longrightarrow> fl_le b c \<Longrightarrow> fl_le a c"
  by (cases a; cases b; cases c) simp_all

lemma np_neg_antimono: "fl_le a b \<Longrightarrow> fl_le (np_neg b) (np_neg a)"
  by (cases a; cases b) (simp_all add: np_neg_def)

lemma fl_mul_mono_right:
  assumes "fl_le (Fin 0) c" and "e1 \<le> e2"
    and "fl_mul c (Fin e1) \<noteq> NaN" and "fl_mul c (Fin e2) \<noteq> NaN"
  shows "fl_le (fl_mul c (Fin e1)) (fl_mul c (Fin e2))"
proof (cases c)
  case (Fin r)
  with assms(1) have "0 \<le> r" by simp
  with assms(2) have "r * e1 \<le> r * e2" by (simp add: mult_left_mono)
  then show ?thesis using Fin by (simp add: round64_mono)
next
  case PInf
  with assms(2-4) show ?thesis by (auto split: if_splits)
next
  case NInf
  with assms(1) show ?thesis by simp
next
  case NaN
  with assms(1) show ?thesis by simp
qed

lemma fl_add_mono_right:
  assumes "fl_le a b"
  shows "fl_le (fl_add (Fin k) a) (fl_add (Fin k) b)"
  using assms
  by (cases a; cases b) (simp_all add: round64_mono round64_not_nan fl_le_PInf fl_le_NInf)

lemma fl_add_not_nan: "fl_add (Fin k) p \<noteq> NaN \<Longrightarrow> p \<noteq> NaN"
  by (cases p) simp_all

lemma fl_div_mono_left:
  assumes "0 < rho" and "fl_le a b"
  shows "fl_le (fl_div a (Fin rho)) (fl_div b (Fin rho))"
  using assms
  by (cases a; cases b)
    (simp_all add: round64_mono round64_not_nan fl_le_PInf fl_le_NInf divide_right_mono)

lemma fl_sqrt_mono:
  assumes "fl_le (Fin 0) a" and "fl_le a b"
  shows "fl_le (fl_sqrt a) (fl_sqrt b)"
  using assms
  by (cases a; cases b) (auto simp: round64_mono round64_not_nan fl_le_PInf fl_le_NInf)


lemma dsigma_f64_mono:
  assumes "0 < K2" and "e1 \<le> e2"
    and "dsigma_f64 e1 K1 K2 \<noteq> NaN" and "dsigma_f64 e2 K1 K2 \<noteq> NaN"
  shows "fl_le (dsigma_f64 e1 K1 K2) (dsigma_f64 e2 K1 K2)"
proof -
  let ?c = "fl_mul (Fin 2) (Fin K2)"
  from assms(1) have "fl_le (round64 0) (round64 (2 * K2))"
    by (intro round64_mono) simp
  then have c: "fl_le (Fin 0) ?c" by (simp add: round64_zero)
  from assms(3,4) have "fl_mul ?c (Fin e1) \<noteq> NaN" and "fl_mul ?c (Fin e2) \<noteq> NaN"
    unfolding dsigma_f64_def by (blast dest: fl_add_not_nan)+
  with c assms(2) have "fl_le (fl_mul ?c (Fin e1)) (fl_mul ?c (Fin e2))"
    by (rule fl_mul_mono_right)
  then show ?thesis
    unfolding dsigma_f64_def by (rule fl_add_mono_right)
qed

lemma speed_f64_antimono:
  assumes "0 < rho" and "fl_le (Fin 0) s1" and "fl_le s1 s2"
  shows "fl_le (np_neg (fl_sqrt (fl_div s2 (Fin rho)))) (np_neg (fl_sqrt (fl_div s1 (Fin rho))))"
proof -
  from fl_div_mono_left [OF assms(1,2)] have "fl_le (Fin 0) (fl_div s1 (Fin rho))"
    using assms(1) by (simp add: round64_zero)
  moreover from assms(1,3) have "fl_le (fl_div s1 (Fin rho)) (fl_div s2 (Fin rho))"
    by (rule fl_div_mono_left)
  ultimately have "fl_le (fl_sqrt (fl_div s1 (Fin rho))) (fl_sqrt (fl_div s2 (Fin rho)))"
    by (rule fl_sqrt_mono)
  then show ?thesis by (rule np_neg_antimono)
qed

lemma lambda1_f64_shaped:
  "lambda1_f64 (eps # qs) xi [rho, K1, K2] =
     Inr (np_neg (fl_sqrt (fl_div (dsigma_f64 eps K1 K2) (Fin rho))))"
  by (simp add: lambda1_f64_def)

lemma floor_log2_binade:
  assumes "2 powi k \<le> a" and "a < 2 powi (k + 1)"
  shows "\<lfloor>log 2 a\<rfloor> = k"
proof -
  have "(0::real) < 2 powi k" by simp
  with assms(1) have pos: "0 < a" by linarith
  have "2 powr of_int k \<le> a" and "a < 2 powr (of_int k + 1)"
    using assms two_powr_int [of k] two_powr_int [of "k + 1"] by simp_all
  with pos show ?thesis by (simp add: floor_log_eq_powr_iff)
qed

lemma round_magnitude_near:
  assumes "- 1022 \<le> k" and "2 powi k \<le> a" and "a < 2 powi (k + 1)"
    and "a = (of_int m + d) * 2 powi (k - 52)" and "0 \<le> d" and "d < 1 / 2"
  shows "round_magnitude a = of_int m * 2 powi (k - 52)"
proof -
  have "(0::real) < 2 powi k" by simp
  with assms(2) have pos: "0 < a" by linarith
  from assms(1) floor_log2_binade [OF assms(2,3)] have e: "ulp_exponent a = k - 52"
    by (simp add: ulp_exponent_def)
  have "a / 2 powi (k - 52) = of_int m + d"
    by (simp add: assms(4))
  moreover have "\<lfloor>of_int m + d\<rfloor> = m"
    using assms(5,6) by (intro floor_unique) simp_all
  with assms(6) have "round_half_even (of_int m + d) = m"
    by (simp add: round_half_even_def Let_def)
  ultimately show ?thesis
    using pos by (simp add: round_magnitude_def e)
qed


lemma round64_near:
  assumes "- 1022 \<le> k" and "k \<le> 1023" and "2 powi k \<le> x" and "x < 2 powi (k + 1)"
    and "x = (of_int m + d) * 2 powi (k - 52)" and "0 \<le> d" and "d < 1 / 2"
  shows "round64 x = Fin (of_int m * 2 powi (k - 52))"
proof -
  have "(0::real) < 2 powi k" by simp
  with assms(3) have pos: "0 < x" by linarith
  have rm: "round_magnitude x = of_int m * 2 powi (k - 52)"
    using assms(1,3-7) by (rule round_magnitude_near)
  have "of_int m * 2 powi (k - 52) \<le> x"
    using assms(6) by (simp add: assms(5) distrib_right)
  also note assms(4)
  also from assms(2) have "(2::real) powi (k + 1) \<le> 2 powi 1024"
    by (intro power_int_increasing) simp_all
  finally have "of_int m * 2 powi (k - 52) < (2::real) ^ 1024" by simp
  with pos rm show ?thesis by (simp add: round64_def Let_def)
qed

text \<open>Rounding at the numbers of the example below.\<close>

lemma round64_two: "round64 2 = Fin 2"
proof -
  have "round64 2 = Fin (of_int (2 ^ 52) * 2 powi (1 - 52))"
  proof (rule round64_near [where d = 0])
    show "(2::real) = (of_int (2 ^ 52) + 0) * 2 powi (1 - 52)" by simp
  qed simp_all
  then show ?thesis by simp
qed

lemma round64_five: "round64 5 = Fin 5"
proof -
  have "round64 5 = Fin (of_int (5 * 2 ^ 50) * 2 powi (2 - 52))"
  proof (rule round64_near [where d = 0])
    show "(5::real) = (of_int (5 * 2 ^ 50) + 0) * 2 powi (2 - 52)" by simp
  qed simp_all
  then show ?thesis by simp
qed

lemma round64_tiny: "round64 (2 * (1 / 2 ^ 60)) = Fin (1 / 2 ^ 59)"
proof -
  have "round64 (2 * (1 / 2 ^ 60)) = Fin (of_int (2 ^ 52) * 2 powi (- 59 - 52))"
  proof (rule round64_near [where d = 0])
    show "(2::real) * (1 / 2 ^ 60) = (of_int (2 ^ 52) + 0) * 2 powi (- 59 - 52)" by simp
  qed simp_all
  then show ?thesis by simp
qed

lemma round64_five_and_a_bit: "round64 (5 + 1 / 2 ^ 59) = Fin 5"
proof -
  have "round64 (5 + 1 / 2 ^ 59) = Fin (of_int (5 * 2 ^ 50) * 2 powi (2 - 52))"
  proof (rule round64_near [where d = "1 / 2 ^ 9"])
    show "(5::real) + 1 / 2 ^ 59 = (of_int (5 * 2 ^ 50) + 1 / 2 ^ 9) * 2 powi (2 - 52)" by simp
  qed simp_all
  then show ?thesis by simp
qed

lemma round64_sqrt_five: "round64 (sqrt 5) = Fin (round_magnitude (sqrt 5))"
proof -
  have lo: "2 powi 1 \<le> sqrt 5" by (simp add: real_le_rsqrt)
  have hi: "sqrt 5 < 2 powi (1 + 1)" by (simp add: real_less_lsqrt)
  from floor_log2_binade [OF lo hi] have "ulp_exponent (sqrt 5) = - 51"
    by (simp add: ulp_exponent_def)
  with round_magnitude_upper [of "sqrt 5"] have "round_magnitude (sqrt 5) \<le> 4"
    by simp
  then show ?thesis by (simp add: round64_def Let_def)
qed

lemma dsigma_f64_at_zero: "dsigma_f64 0 5 1 = Fin 5"
  by (simp add: dsigma_f64_def round64_two round64_zero round64_five)

lemma dsigma_f64_at_tiny: "dsigma_f64 (1 / 2 ^ 60) 5 1 = Fin 5"
proof -
  have "fl_mul (fl_mul (Fin 2) (Fin 1)) (Fin (1 / 2 ^ 60)) = Fin (1 / 2 ^ 59)"
    using round64_tiny by (simp add: round64_two)
  then show ?thesis
    unfolding dsigma_f64_def using round64_five_and_a_bit by simp
qed

lemma speed_f64_of_five:
  "np_neg (fl_sqrt (fl_div (Fin 5) (Fin 1))) = Fin (- round_magnitude (sqrt 5))"
  by (simp add: round64_five round64_sqrt_five np_neg_def)

text \<open>
  Claim C5, as stated: for \<open>\<rho> > 0\<close> and \<open>K2 > 0\<close> the family-1 speed is strictly decreasing
  in the strain on the range where \<open>K1 + 2 \<cdot> K2 \<cdot> \<epsilon> \<ge> 0\<close>, so that the speed at \<open>\<epsilon>\<^sub>1\<close> exceeds
  the speed at \<open>\<epsilon>\<^sub>2\<close> if and only if \<open>\<epsilon>\<^sub>2 > \<epsilon>\<^sub>1\<close>. It fails for the parameters \<open>(1, 5, 1)\<close> of
  the notebook at the strains \<open>0\<close> and \<open>2\<^sup>-\<^sup>6\<^sup>0\<close>: the second is larger, but \<open>5 + 2\<^sup>-\<^sup>5\<^sup>9\<close>
  rounds to \<open>5\<close>, both slopes are \<open>5\<close>, and the two speeds are the same number.
\<close>

theorem equal_speeds_counterexample:
  "(0::real) < 1 / 2 ^ 60 \<and>
   dsigma_f64 0 5 1 = Fin 5 \<and>
   dsigma_f64 (1 / 2 ^ 60) 5 1 = Fin 5 \<and>
   lambda1_f64 [0, 0] 0 [1, 5, 1] = Inr (Fin (- round_magnitude (sqrt 5))) \<and>
   lambda1_f64 [1 / 2 ^ 60, 0] 0 [1, 5, 1] = Inr (Fin (- round_magnitude (sqrt 5)))"
proof -
  have "lambda1_f64 [0, 0] 0 [1, 5, 1] = Inr (Fin (- round_magnitude (sqrt 5)))"
    unfolding lambda1_f64_shaped dsigma_f64_at_zero speed_f64_of_five ..
  moreover
  have "lambda1_f64 [1 / 2 ^ 60, 0] 0 [1, 5, 1] = Inr (Fin (- round_magnitude (sqrt 5)))"
    unfolding lambda1_f64_shaped dsigma_f64_at_tiny speed_f64_of_five ..
  moreover have "(0::real) < 1 / 2 ^ 60" by simp
  ultimately show ?thesis
    using dsigma_f64_at_zero dsigma_f64_at_tiny by blast
qed

text \<open>
  Claim C5, amended: for \<open>\<rho> > 0\<close> and \<open>K2 > 0\<close> the family-1 speed is decreasing, not
  necessarily strictly, in the strain on the range where the slope that \<open>dsigma\<close>
  computes is \<open>\<ge> 0\<close>: for two strains of that range, \<open>\<epsilon>\<^sub>1 \<le> \<epsilon>\<^sub>2\<close> implies that the speed at
  \<open>\<epsilon>\<^sub>2\<close> is at most the speed at \<open>\<epsilon>\<^sub>1\<close>, and hence the speed at \<open>\<epsilon>\<^sub>1\<close> exceeds the speed at
  \<open>\<epsilon>\<^sub>2\<close> only if \<open>\<epsilon>\<^sub>2 > \<epsilon>\<^sub>1\<close>. (The comparisons are those of floats; neither speed is NaN.)
\<close>

theorem lambda1_f64_decreasing:
  assumes "0 < rho" and "0 < K2"
    and "fl_le (Fin 0) (dsigma_f64 e1 K1 K2)" and "fl_le (Fin 0) (dsigma_f64 e2 K1 K2)"
  shows "\<exists>v1 v2. lambda1_f64 (e1 # qs1) xi1 [rho, K1, K2] = Inr v1 \<and>
                 lambda1_f64 (e2 # qs2) xi2 [rho, K1, K2] = Inr v2 \<and>
                 v1 \<noteq> NaN \<and> v2 \<noteq> NaN \<and>
                 (e1 \<le> e2 \<longrightarrow> fl_le v2 v1) \<and>
                 (fl_lt v2 v1 \<longrightarrow> e1 < e2)"
proof -
  let ?s1 = "dsigma_f64 e1 K1 K2" and ?s2 = "dsigma_f64 e2 K1 K2"
  let ?v1 = "np_neg (fl_sqrt (fl_div ?s1 (Fin rho)))"
  let ?v2 = "np_neg (fl_sqrt (fl_div ?s2 (Fin rho)))"
  from assms(3,4) have nn: "?s1 \<noteq> NaN" "?s2 \<noteq> NaN"
    by (auto dest: fl_le_not_nan)
  have down: "fl_le ?v2 ?v1" if "e1 \<le> e2"
  proof -
    from assms(2) that nn have "fl_le ?s1 ?s2" by (rule dsigma_f64_mono)
    with assms(1,3) show ?thesis by (rule speed_f64_antimono)
  qed
  have up: "fl_le ?v1 ?v2" if "e2 \<le> e1"
  proof -
    from assms(2) that nn(2,1) have "fl_le ?s2 ?s1" by (rule dsigma_f64_mono)
    with assms(1,4) show ?thesis by (rule speed_f64_antimono)
  qed
  have conv: "e1 < e2" if "fl_lt ?v2 ?v1"
  proof (rule ccontr)
    assume "\<not> e1 < e2"
    then have "e2 \<le> e1" by simp
    then have "fl_le ?v1 ?v2" by (rule up)
    then have "\<not> fl_lt ?v2 ?v1" by (rule fl_le_not_lt)
    with that show False by contradiction
  qed
  have "e1 \<le> e2 \<or> e2 \<le> e1" by linarith
  with down up have "?v1 \<noteq> NaN \<and> ?v2 \<noteq> NaN"
    by (blast dest: fl_le_not_nan)
  with down conv show ?thesis
    by (simp only: lambda1_f64_shaped) blast
qed

theorem lambda1_f64_decreasing_witness:
  "(0::real) < 1 \<and> fl_le (Fin 0) (dsigma_f64 0 5 1) \<and> fl_le (Fin 0) (dsigma_f64 (1 / 2 ^ 60) 5 1) \<and>
   (\<exists>v1 v2. lambda1_f64 [0, 0] 0 [1, 5, 1] = Inr v1 \<and>
            lambda1_f64 [1 / 2 ^ 60, 0] 0 [1, 5, 1] = Inr v2 \<and>
            v1 \<noteq> NaN \<and> v2 \<noteq> NaN \<and> fl_le v2 v1)"
proof -
  have pos: "(0::real) < 1" by simp
  have s1: "fl_le (Fin 0) (dsigma_f64 0 5 1)"
    unfolding dsigma_f64_at_zero by simp
  have s2: "fl_le (Fin 0) (dsigma_f64 (1 / 2 ^ 60) 5 1)"
    unfolding dsigma_f64_at_tiny by simp
  have le: "(0::real) \<le> 1 / 2 ^ 60" by simp
  from lambda1_f64_decreasing [OF pos pos s1 s2, of "[0]" 0 "[0]" 0] le pos s1 s2
  show ?thesis by blast
qed

subsection \<open>Arguments outside the hyperbolic range\<close>

text \<open>
  Neither helper validates its arguments. On well-shaped arrays no exception is raised
  whatever the numbers are; the only errors are those of indexing and unpacking.
\<close>

lemma lambda1_raises_nothing_on_shaped:
  "\<not> isl (lambda1 (eps # qs) xi [rho, K1, K2]) \<and> \<not> isl (lambda2 (eps # qs) xi [rho, K1, K2])"
  by (simp add: lambda1_shaped lambda2_shaped)

lemma lambda1_zero_slope:
  "dsigma 0 0 1 = 0 \<and> lambda1 [0, 0] 0 [1, 0, 1] = Inr (Fin 0)"
  by (simp add: lambda1_def dsigma_def np_div_def np_sqrt_def np_neg_def)

text \<open>
  Claim C4, as stated: whenever \<open>K1 + 2 \<cdot> K2 \<cdot> q[0]\<close> is non-positive (or \<open>\<rho> \<le> 0\<close>),
  evaluating a characteristic speed reports an input-validity fault and never yields
  NaN. It fails at \<open>q = (-3, 0)\<close>, \<open>aux = (1, 5, 1)\<close>: the stress slope is \<open>-1\<close>, and both
  helpers return NaN as an ordinary value.
\<close>

theorem negative_slope_yields_nan_counterexample:
  "dsigma (- 3) 5 1 \<le> 0 \<and>
   lambda1 [- 3, 0] 0 [1, 5, 1] = Inr NaN \<and>
   lambda2 [- 3, 0] 0 [1, 5, 1] = Inr NaN"
  by (simp add: lambda2_def lambda1_def dsigma_def np_div_def np_sqrt_def np_neg_def)

text \<open>
  Claim C4, amended: for every state \<open>q\<close> and parameters \<open>(\<rho>, K1, K2)\<close> with \<open>\<rho> \<noteq> 0\<close> and
  \<open>(K1 + 2 \<cdot> K2 \<cdot> q[0]) / \<rho> < 0\<close> (in particular \<open>\<rho> > 0\<close> with a negative stress slope),
  \<open>lambda1\<close> and \<open>lambda2\<close> report no fault: each returns NaN as its value.
\<close>

theorem imaginary_speed_is_nan:
  assumes "rho \<noteq> 0" and "(K1 + 2 * K2 * eps) / rho < 0"
  shows "lambda1 (eps # qs) xi [rho, K1, K2] = Inr NaN \<and>
         lambda2 (eps # qs) xi [rho, K1, K2] = Inr NaN"
proof -
  from assms(2) have neg: "dsigma eps K1 K2 / rho < 0"
    by (simp add: dsigma_def)
  have one: "lambda1 (eps # qs) xi [rho, K1, K2] = Inr NaN"
    by (simp only: lambda1_shaped speed_of_negative_quotient [OF assms(1) neg])
  then have "lambda2 (eps # qs) xi [rho, K1, K2] = Inr NaN"
    by (simp add: lambda2_def np_neg_def)
  with one show ?thesis by simp
qed

theorem imaginary_speed_is_nan_witness:
  "(2::real) \<noteq> 0 \<and> ((1::real) + 2 * 1 * (- 2)) / 2 < 0 \<and>
   lambda1 [- 2, 7] 0 [2, 1, 1] = Inr NaN \<and>
   lambda2 [- 2, 7] 0 [2, 1, 1] = Inr NaN"
proof -
  have nz: "(2::real) \<noteq> 0" by simp
  have neg: "((1::real) + 2 * 1 * (- 2)) / 2 < 0" by simp
  from imaginary_speed_is_nan [OF nz neg, of "[7]" 0] nz neg
  show ?thesis by simp
qed

section \<open>Properties of the plotting glue\<close>

lemma make_plot_function_result:
  "snd (make_plot_function solver q_l q_r aux_l aux_r) =
     (case solver q_l q_r aux_l aux_r of
        Inl e \<Rightarrow> Inl e
      | Inr [states, speeds, reval, wave_types] \<Rightarrow>
          Inr \<lparr>cl_states = states, cl_speeds = speeds, cl_reval = reval,
               cl_wave_types = wave_types,
               cl_q_l = q_l, cl_q_r = q_r, cl_aux_l = aux_l, cl_aux_r = aux_r\<rparr>
      | Inr _ \<Rightarrow> Inl ValueError)"
  by (simp add: make_plot_function_def)

text \<open>
  The call site binds the solver's result to four names: it completes exactly when the
  solver returns a sequence of four items, which it takes in the order states, speeds,
  evaluator, wave types.
\<close>

lemma make_plot_function_unpacks:
  "(snd (make_plot_function solver q_l q_r aux_l aux_r) = Inr cl) =
   (\<exists>states speeds reval wave_types.
      solver q_l q_r aux_l aux_r = Inr [states, speeds, reval, wave_types] \<and>
      cl = \<lparr>cl_states = states, cl_speeds = speeds, cl_reval = reval,
            cl_wave_types = wave_types,
            cl_q_l = q_l, cl_q_r = q_r, cl_aux_l = aux_l, cl_aux_r = aux_r\<rparr>)"
  by (auto simp: make_plot_function_def split: sum.splits list.splits)

lemma plot_function_first_call:
  "hd (plot_function cl t which_char) =
     Plot_riemann (cl_states cl) (cl_speeds cl) (cl_reval cl) (cl_wave_types cl)
       t 0 True [''Strain'', ''Momentum'']"
  by (simp add: plot_function_def)

text \<open>
  Claim C10. For all arguments \<open>a\<close>, \<open>b\<close>, \<open>c\<close>, \<open>d\<close>, the call
  \<open>plot_riemann_nonlinear_elasticity(a, b, c, d)\<close> makes exactly one call of the solver,
  with the arguments \<open>(a, b, c, d)\<close> in this order and unchanged, as
  \<open>(q_l, q_r, aux_l, aux_r)\<close>. Whatever the parameters are called, the first two are
  taken as the left and right state and the last two as the left and right parameter
  triple: the outcome is determined by the solver's answer at \<open>(a, b, c, d)\<close>, and the
  plot function handed to \<open>interact\<close> has captured \<open>a\<close>, \<open>b\<close> as states and \<open>c\<close>, \<open>d\<close> as
  parameters.
\<close>

theorem plot_riemann_forwards_arguments:
  "solver_calls (fst (plot_riemann_nonlinear_elasticity solver a b c d)) = [(a, b, c, d)] \<and>
   hd (fst (plot_riemann_nonlinear_elasticity solver a b c d)) = Exact_riemann_solution a b c d \<and>
   plot_riemann_nonlinear_elasticity solver a b c d =
     (case solver a b c d of
        Inl e \<Rightarrow> ([Exact_riemann_solution a b c d], Inl e)
      | Inr [states, speeds, reval, wave_types] \<Rightarrow>
          ([Exact_riemann_solution a b c d,
            Interact
              \<lparr>cl_states = states, cl_speeds = speeds, cl_reval = reval,
               cl_wave_types = wave_types,
               cl_q_l = a, cl_q_r = b, cl_aux_l = c, cl_aux_r = d\<rparr>
              \<lparr>sl_value = 0, sl_min = 0, sl_max = 1, sl_step = 0.1\<rparr>
              \<lparr>dd_options = [None, Some 1, Some 2],
               dd_description = ''Show characteristics''\<rparr>],
           Inr ())
      | Inr _ \<Rightarrow> ([Exact_riemann_solution a b c d], Inl ValueError))"
proof -
  have unfolded:
    "plot_riemann_nonlinear_elasticity solver a b c d =
       (case solver a b c d of
          Inl e \<Rightarrow> ([Exact_riemann_solution a b c d], Inl e)
        | Inr [states, speeds, reval, wave_types] \<Rightarrow>
            ([Exact_riemann_solution a b c d,
              Interact
                \<lparr>cl_states = states, cl_speeds = speeds, cl_reval = reval,
                 cl_wave_types = wave_types,
                 cl_q_l = a, cl_q_r = b, cl_aux_l = c, cl_aux_r = d\<rparr>
                \<lparr>sl_value = 0, sl_min = 0, sl_max = 1, sl_step = 0.1\<rparr>
                \<lparr>dd_options = [None, Some 1, Some 2],
                 dd_description = ''Show characteristics''\<rparr>],
             Inr ())
        | Inr _ \<Rightarrow> ([Exact_riemann_solution a b c d], Inl ValueError))"
    by (simp add: plot_riemann_nonlinear_elasticity_def make_plot_function_def
        split: sum.splits list.splits)
  have calls: "solver_calls (fst (plot_riemann_nonlinear_elasticity solver a b c d)) = [(a, b, c, d)]"
    by (simp add: unfolded solver_calls_def split: sum.splits list.splits)
  have first: "hd (fst (plot_riemann_nonlinear_elasticity solver a b c d)) = Exact_riemann_solution a b c d"
    by (simp add: unfolded split: sum.splits list.splits)
  from calls first unfolded show ?thesis by (simp only: simp_thms)
qed

text \<open>
  The notebook's own call, with a solver that answers with four objects (numbered here):
  the solver receives the two states first and the two parameter arrays last, and the
  plot function draws the phase plane from the same four arrays.
\<close>

lemma notebook_call:
  "fst (plot_riemann_nonlinear_elasticity (\<lambda>_ _ _ _. Inr [0::nat, 1, 2, 3])
          [2.1, 0] [0, 0] [1, 5, 1] [1, 2, 1]) ! 0 =
     Exact_riemann_solution [2.1, 0] [0, 0] [1, 5, 1] [1, 2, 1] \<and>
   plot_function
     \<lparr>cl_states = 0::nat, cl_speeds = 1, cl_reval = 2, cl_wave_types = 3,
      cl_q_l = [2.1, 0], cl_q_r = [0, 0], cl_aux_l = [1, 5, 1], cl_aux_r = [1, 2, 1]\<rparr>
     0 (Some 1) =
     [Plot_riemann 0 1 2 3 0 0 True [''Strain'', ''Momentum''],
      Plot_characteristics 2 Lambda1 ([1, 5, 1], [1, 2, 1]) 0,
      Phase_plane_plot [2.1, 0] [0, 0] [1, 5, 1] [1, 2, 1] 3,
      Show]"
  by (simp add: plot_riemann_nonlinear_elasticity_def make_plot_function_def plot_function_def)

end
